theory Spec2Isabelle
  imports Complex_Main "HOL-Library.AList"
begin

section \<open>JavaScript values used by the runner modules\<close>

text \<open>
  The repository holds an HTTP front end (\<^verbatim>\<open>index.js\<close>) and two versions of the runner
  module it requires: \<^verbatim>\<open>firecracker-runner.js\<close> ("updated version": a slot counter, no
  cache) and the "enhanced version" (a slot counter on the Firecracker path, a result
  cache, three backends and \<^verbatim>\<open>shutdown\<close>).  Both export one \<^verbatim>\<open>FirecrackerRunner\<close>
  object.  Everything outside the JavaScript of the repository (the file system, child
  processes, the script engine, \<^verbatim>\<open>uuidv4\<close>, MD5) is an explicit parameter of the model.
\<close>

type_synonym path = string

text \<open>How a call of an \<^verbatim>\<open>async\<close> function ends: its promise is fulfilled with a value,
  it is rejected with an exception (whose message is kept), or it never settles.\<close>

datatype 'a completion = Returns 'a | Throws string | Hangs

text \<open>A JavaScript \<^verbatim>\<open>Map\<close> keeps its keys in insertion order; \<^verbatim>\<open>set\<close> on a key that is
  present replaces the value in place, on a new key it appends.\<close>

definition Map_has :: "'k \<Rightarrow> ('k \<times> 'v) list \<Rightarrow> bool" where
  "Map_has k m = (map_of m k \<noteq> None)"

definition Map_get :: "'k \<Rightarrow> ('k \<times> 'v) list \<Rightarrow> 'v option" where
  "Map_get k m = map_of m k"

definition Map_set :: "'k \<Rightarrow> 'v \<Rightarrow> ('k \<times> 'v) list \<Rightarrow> ('k \<times> 'v) list" where
  "Map_set k v m = AList.update k v m"

definition Map_delete :: "'k \<Rightarrow> ('k \<times> 'v) list \<Rightarrow> ('k \<times> 'v) list" where
  "Map_delete k m = AList.delete k m"

definition Map_size :: "('k \<times> 'v) list \<Rightarrow> nat" where
  "Map_size m = length m"

text \<open>\<^verbatim>\<open>String.prototype.trim\<close> on the ASCII white space characters, \<^verbatim>\<open>includes\<close> and
  \<^verbatim>\<open>Array.prototype.join\<close>.\<close>

definition isspace :: "char \<Rightarrow> bool" where
  "isspace c = (c \<in> set [CHR 0x09, CHR 0x0A, CHR 0x0B, CHR 0x0C, CHR 0x0D, CHR '' ''])"

definition trim :: "string \<Rightarrow> string" where
  "trim s = rev (dropWhile isspace (rev (dropWhile isspace s)))"

fun includes_str :: "string \<Rightarrow> string \<Rightarrow> bool" where
  "includes_str [] sub = (sub = [])"
| "includes_str (c # cs) sub = (take (length sub) (c # cs) = sub \<or> includes_str cs sub)"

fun join :: "string \<Rightarrow> string list \<Rightarrow> string" where
  "join sep [] = []"
| "join sep [x] = x"
| "join sep (x # y # ys) = x @ sep @ join sep (y # ys)"

text \<open>The result objects.  A property that an object literal does not have is \<open>None\<close>;
  \<open>error\<close> is \<open>None\<close> when \<^verbatim>\<open>error.message\<close> was read from a thrown value without that
  property.  \<open>fromCache\<close> is only ever set to \<^verbatim>\<open>true\<close>, so \<open>False\<close> stands for "absent".\<close>

record result =
  success :: bool
  output_text :: string
  error :: "string option"
  mode :: "string option"
  vmID :: "string option"
  containerId :: "string option"
  executionId :: "string option"
  fromCache :: bool

text \<open>A value caught by \<^verbatim>\<open>catch (error)\<close> from the script engine: \<^verbatim>\<open>null\<close> or
  \<^verbatim>\<open>undefined\<close>, or a value with the answer of \<^verbatim>\<open>error instanceof Error\<close> and its
  \<^verbatim>\<open>message\<close> property.\<close>

datatype thrown = Nullish | Value bool "string option"

text \<open>What a child process started by \<^verbatim>\<open>exec\<close> does: it exits with status 0 and the given
  standard output and standard error, it fails (non-zero exit or no such command; the text
  is the message of the error \<^verbatim>\<open>exec\<close> reports), or it never exits.\<close>

datatype child_run = Exit0 string string | ExitErr string | NeverExits

datatype 'a promise = Resolved 'a | Rejected string | Pending

text \<open>\<^verbatim>\<open>util.promisify(exec)\<close> as the modules call it everywhere: with the command only and
  no options, hence without \<^verbatim>\<open>exec\<close>'s own \<^verbatim>\<open>timeout\<close> (which defaults to none).  The
  promise settles when the child exits.\<close>

definition execPromise :: "child_run \<Rightarrow> (string \<times> string) promise" where
  "execPromise c =
     (case c of Exit0 out err \<Rightarrow> Resolved (out, err)
      | ExitErr m \<Rightarrow> Rejected m
      | NeverExits \<Rightarrow> Pending)"

text \<open>One call of the sandboxed console.  Each argument is given as the text the callback
  computes for it (\<^verbatim>\<open>JSON.stringify\<close> for objects, \<^verbatim>\<open>String\<close> otherwise).\<close>

datatype console_call = Log "string list" | Error "string list" | Warn "string list"

text \<open>A run of \<^verbatim>\<open>script.runInContext\<close> under its \<^verbatim>\<open>timeout\<close> option: the console calls
  made, and whether the script ran to its end or an exception reached the caller (a
  syntax error from \<^verbatim>\<open>new vm.Script\<close>, an exception of the script, or the engine's
  "Script execution timed out" error).\<close>

record script_run =
  calls :: "console_call list"
  raised :: "thrown option"

text \<open>The handle \<^verbatim>\<open>spawn\<close> returns: the child's process id, and whether \<^verbatim>\<open>kill()\<close> on it
  throws (with which message) or sends the signal that ends the child.\<close>

datatype proc = Proc (pid: nat) (kill_err: "string option")

section \<open>State and environment\<close>

text \<open>The fields of the \<^verbatim>\<open>FirecrackerRunner\<close> object together with the paths that exist
  in the file system and, in \<open>running\<close>, the ids of the spawned child processes that
  no \<^verbatim>\<open>kill()\<close> has ended.  The older
  module has the first four fields only and leaves the others alone.\<close>

record state =
  tempDir :: path
  vmCount :: int
  maxVMs :: int
  processes :: "(string \<times> proc) list"
  cache :: "(string \<times> result) list"
  executionTimeout :: nat
  memoryLimit :: nat
  useFirecracker :: bool
  useDocker :: bool
  files :: "path set"
  running :: "nat set"

text \<open>What the outside world does during one call of \<^verbatim>\<open>runJavaScript\<close>.  A file
  operation that fails rejects with the message (or just fails, where the caller swallows
  the error) and leaves the file system as it was.\<close>

record env =
  uuid :: string
  writeFile_err :: "string option"
  writeJson_err :: "string option"
  spawn_res :: "string + proc"
  sock_created :: bool
  node_run :: "string \<Rightarrow> child_run"
  docker_run :: "string \<Rightarrow> child_run"
  docker_rm :: child_run
  vm_run :: "string \<Rightarrow> script_run"
  remove_code_fails :: bool
  remove_config_fails :: bool
  unlink_sock_fails :: bool

definition constructed :: "path \<Rightarrow> path set \<Rightarrow> state" where
  "constructed dir fs =
     \<lparr>tempDir = dir, vmCount = 0, maxVMs = 3, processes = [], cache = [],
      executionTimeout = 5000, memoryLimit = 128, useFirecracker = False,
      useDocker = False, files = fs, running = {}\<rparr>"

definition codeFile :: "state \<Rightarrow> string \<Rightarrow> path" where
  "codeFile s i = tempDir s @ ''/'' @ i @ ''.js''"

definition configFile :: "state \<Rightarrow> string \<Rightarrow> path" where
  "configFile s i = tempDir s @ ''/'' @ i @ ''-config.json''"

definition socketPath :: "string \<Rightarrow> path" where
  "socketPath i = ''/tmp/firecracker-'' @ i @ ''.sock''"

definition in_dir :: "path \<Rightarrow> path \<Rightarrow> bool" where
  "in_dir d p = (take (length d + 1) p = d @ ''/'' \<and> length d + 1 < length p)"

definition scratch :: "state \<Rightarrow> path set" where
  "scratch s = {p \<in> files s. in_dir (tempDir s) p}"

definition rm :: "bool \<Rightarrow> path \<Rightarrow> state \<Rightarrow> state" where
  \<comment> \<open>\<^verbatim>\<open>await fs.remove(p).catch(() => { })\<close>\<close>
  "rm fails p s = (if fails then s else s\<lparr>files := files s - {p}\<rparr>)"

section \<open>The enhanced runner: \<^verbatim>\<open>runWithFirecracker\<close>\<close>

definition queue_full :: result where
  "queue_full =
     \<lparr>success = False, output_text = '''',
      error = Some ''Maximum number of concurrent VMs reached. Please try again later.'',
      mode = Some ''firecracker-queue-full'', vmID = None, containerId = None,
      executionId = None, fromCache = False\<rparr>"

definition failed :: "string option \<Rightarrow> string \<Rightarrow> result" where
  "failed msg m =
     \<lparr>success = False, output_text = '''', error = msg, mode = Some m, vmID = None,
      containerId = None, executionId = None, fromCache = False\<rparr>"

definition fc_try :: "env \<Rightarrow> string \<Rightarrow> string \<Rightarrow> string \<Rightarrow> state \<Rightarrow> result completion \<times> state" where
  \<comment> \<open>the \<^verbatim>\<open>try\<close> block\<close>
  "fc_try e code i codeHash s0 =
     (let s1 = s0\<lparr>vmCount := vmCount s0 + 1\<rparr> in
      case writeFile_err e of Some m \<Rightarrow> (Throws m, s1) | None \<Rightarrow>
      let s2 = s1\<lparr>files := insert (codeFile s1 i) (files s1)\<rparr> in
      case writeJson_err e of Some m \<Rightarrow> (Throws m, s2) | None \<Rightarrow>
      let s3 = s2\<lparr>files := insert (configFile s2 i) (files s2)\<rparr> in
      case spawn_res e of Inl m \<Rightarrow> (Throws m, s3) | Inr p \<Rightarrow>
      let s4 = s3\<lparr>processes := Map_set i p (processes s3),
                  files := (if sock_created e then insert (socketPath i) (files s3)
                            else files s3),
                  running := insert (pid p) (running s3)\<rparr> in
      case execPromise (node_run e code) of
        Pending \<Rightarrow> (Hangs, s4)
      | Rejected m \<Rightarrow> (Throws m, s4)
      | Resolved (out, err) \<Rightarrow>
          let r = \<lparr>success = True, output_text = trim out, error = Some (trim err),
                   mode = Some ''firecracker'', vmID = Some i, containerId = None,
                   executionId = None, fromCache = False\<rparr>
          in (Returns r, s4\<lparr>cache := Map_set codeHash r (cache s4)\<rparr>))"

definition fc_finally :: "env \<Rightarrow> string \<Rightarrow> state \<Rightarrow> unit completion \<times> state" where
  \<comment> \<open>the \<^verbatim>\<open>finally\<close> block; \<^verbatim>\<open>process.kill()\<close> is not guarded there\<close>
  "fc_finally e i s =
     (case (case Map_get i (processes s) of
              None \<Rightarrow> Inr s
            | Some p \<Rightarrow> (case kill_err p of
                           Some m \<Rightarrow> Inl m
                         | None \<Rightarrow> Inr (s\<lparr>running := running s - {pid p},
                                         processes := Map_delete i (processes s)\<rparr>))) of
        Inl m \<Rightarrow> (Throws m, s)
      | Inr s1 \<Rightarrow>
          let s2 = rm (remove_code_fails e) (codeFile s1 i) s1;
              s3 = rm (remove_config_fails e) (configFile s2 i) s2;
              s4 = rm (unlink_sock_fails e) (socketPath i) s3
          in (Returns (), s4\<lparr>vmCount := vmCount s4 - 1\<rparr>))"

definition runWithFirecracker :: "env \<Rightarrow> string \<Rightarrow> string \<Rightarrow> string \<Rightarrow> state \<Rightarrow> result completion \<times> state" where
  "runWithFirecracker e code i codeHash s =
     (if vmCount s \<ge> maxVMs s then (Returns queue_full, s)
      else case fc_try e code i codeHash s of
        (Hangs, s') \<Rightarrow> (Hangs, s')
      | (c, s') \<Rightarrow>
          let r = (case c of Throws m \<Rightarrow> Returns (failed (Some m) ''firecracker'') | _ \<Rightarrow> c)
          in (case fc_finally e i s' of
                (Throws m, s'') \<Rightarrow> (Throws m, s'')
              | (_, s'') \<Rightarrow> (r, s'')))"

section \<open>The enhanced runner: \<^verbatim>\<open>runWithDocker\<close> and \<^verbatim>\<open>runWithVMSandbox\<close>\<close>

definition runWithDocker :: "env \<Rightarrow> string \<Rightarrow> string \<Rightarrow> string \<Rightarrow> state \<Rightarrow> result completion \<times> state" where
  \<comment> \<open>no test of \<open>vmCount\<close>, no change of it; \<^verbatim>\<open>docker rm -f\<close> changes nothing modelled here\<close>
  "runWithDocker e code i codeHash s =
     (let (c, s') =
        (case writeFile_err e of Some m \<Rightarrow> (Throws m, s) | None \<Rightarrow>
         let s1 = s\<lparr>files := insert (codeFile s i) (files s)\<rparr> in
         case execPromise (docker_run e code) of
           Pending \<Rightarrow> (Hangs, s1)
         | Rejected m \<Rightarrow> (Throws m, s1)
         | Resolved (out, err) \<Rightarrow>
             let r = \<lparr>success = True, output_text = trim out, error = Some (trim err),
                      mode = Some ''docker'', vmID = None,
                      containerId = Some (''code-exec-'' @ i), executionId = None,
                      fromCache = False\<rparr>
             in (Returns r, s1\<lparr>cache := Map_set codeHash r (cache s1)\<rparr>))
      in case c of
        Hangs \<Rightarrow> (Hangs, s')
      | _ \<Rightarrow>
          let r = (case c of
                     Throws m \<Rightarrow>
                       let isTimeout = includes_str m ''timeout'' \<or> includes_str m ''timed out''
                       in Returns (failed (Some (if isTimeout then ''Execution timed out'' else m))
                                     ''docker'')
                   | _ \<Rightarrow> c);
              s'' = rm (remove_code_fails e) (codeFile s' i) s'
          in (case execPromise (docker_rm e) of Pending \<Rightarrow> (Hangs, s'') | _ \<Rightarrow> (r, s'')))"

text \<open>The three callbacks of the sandbox's console push one line each.\<close>

fun console_push :: "string list \<times> string list \<Rightarrow> console_call \<Rightarrow> string list \<times> string list" where
  "console_push (logs, errors) (Log args) = (logs @ [join '' '' args], errors)"
| "console_push (logs, errors) (Error args) = (logs, errors @ [join '' '' args])"
| "console_push (logs, errors) (Warn args) = (logs, errors @ [''[WARN] '' @ join '' '' args])"

definition type_error :: string where
  \<comment> \<open>the message of the engine's TypeError; its wording is the engine's\<close>
  "type_error = ''TypeError''"

definition runWithVMSandbox :: "env \<Rightarrow> string \<Rightarrow> string \<Rightarrow> string \<Rightarrow> state \<Rightarrow> result completion \<times> state" where
  \<comment> \<open>no test of \<open>vmCount\<close>, no files, no \<^verbatim>\<open>finally\<close>\<close>
  "runWithVMSandbox e code i codeHash s =
     (let run = vm_run e code;
          (logs, errors) = foldl console_push ([], []) (calls run)
      in case raised run of
        None \<Rightarrow>
          let r = \<lparr>success = True, output_text = join [CHR 0x0A] logs,
                   error = Some (join [CHR 0x0A] errors), mode = Some ''vm-sandbox'',
                   vmID = None, containerId = None, executionId = Some i, fromCache = False\<rparr>
          in (Returns r, s\<lparr>cache := Map_set codeHash r (cache s)\<rparr>)
      | Some Nullish \<Rightarrow> (Throws type_error, s)
      | Some (Value isError msg) \<Rightarrow>
          (if isError then
             (case msg of
                None \<Rightarrow> (Throws type_error, s)
              | Some m \<Rightarrow>
                  (Returns (failed (Some (if includes_str m ''Script execution timed out''
                                          then ''Execution timed out'' else m)) ''vm-sandbox''), s))
           else (Returns (failed msg ''vm-sandbox''), s)))"

section \<open>The enhanced runner: \<^verbatim>\<open>runJavaScript\<close>, \<^verbatim>\<open>clearCache\<close>, \<^verbatim>\<open>shutdown\<close>\<close>

definition runJavaScript :: "(string \<Rightarrow> string) \<Rightarrow> env \<Rightarrow> string \<Rightarrow> state \<Rightarrow> result completion \<times> state" where
  \<comment> \<open>\<open>md5\<close> is the hex MD5 digest\<close>
  "runJavaScript md5 e code s =
     (let i = uuid e; codeHash = md5 code in
      case Map_get codeHash (cache s) of
        Some r \<Rightarrow> (Returns (r\<lparr>fromCache := True\<rparr>), s)
      | None \<Rightarrow>
          if useFirecracker s then runWithFirecracker e code i codeHash s
          else if useDocker s then runWithDocker e code i codeHash s
          else runWithVMSandbox e code i codeHash s)"

definition clearCache :: "state \<Rightarrow> state" where
  "clearCache s = s\<lparr>cache := []\<rparr>"

fun kill_all :: "(string \<times> proc) list \<Rightarrow> nat set \<Rightarrow> string list \<times> nat set" where
  \<comment> \<open>the loop of \<^verbatim>\<open>shutdown\<close>: every \<^verbatim>\<open>kill()\<close> sits in its own \<^verbatim>\<open>try\<close>; the lines
      logged and the processes still running\<close>
  "kill_all [] run = ([], run)"
| "kill_all ((i, p) # ps) run =
     (case kill_err p of
        None \<Rightarrow>
          (let (log, run') = kill_all ps (run - {pid p})
           in ((''Terminated process for VM '' @ i) # log, run'))
      | Some m \<Rightarrow>
          (let (log, run') = kill_all ps run
           in ((''Failed to terminate process for VM '' @ i) # log, run')))"

text \<open>What the file system does during \<^verbatim>\<open>fs.emptyDir\<close> (fs-extra): listing the directory
  may fail, in which case the directory is only (re)created, which may fail too; otherwise
  every entry is removed on its own, and the entries in \<open>stuck\<close> cannot be removed.\<close>

record cleaning =
  readdir_fails :: bool
  mkdirs_fails :: bool
  stuck :: "path set"

definition emptyDir :: "cleaning \<Rightarrow> path \<Rightarrow> path set \<Rightarrow> bool \<times> path set" where
  \<comment> \<open>whether the promise rejects, and the paths that exist once all removals have ended\<close>
  "emptyDir c d fs =
     (if readdir_fails c then (mkdirs_fails c, fs)
      else ((\<exists>p \<in> fs. in_dir d p \<and> p \<in> stuck c),
            {p \<in> fs. in_dir d p \<longrightarrow> p \<in> stuck c}))"

definition shutdown :: "cleaning \<Rightarrow> state \<Rightarrow> (string list) completion \<times> state" where
  \<comment> \<open>the \<^verbatim>\<open>catch\<close> around \<^verbatim>\<open>fs.emptyDir\<close> logs the rejection.  Returns the log.\<close>
  "shutdown c s =
     (let (log1, run1) = kill_all (processes s) (running s);
          s1 = s\<lparr>processes := [], running := run1\<rparr>;
          (rejected, fs) = emptyDir c (tempDir s1) (files s1)
      in (Returns (log1 @ [if rejected then ''Failed to clean temporary directory''
                           else ''Cleaned temporary directory'']),
          s1\<lparr>files := fs\<rparr>))"

section \<open>The updated runner (\<^verbatim>\<open>firecracker-runner.js\<close>)\<close>

definition queue_full_v1 :: result where
  "queue_full_v1 =
     \<lparr>success = False, output_text = '''',
      error = Some ''Maximum number of concurrent VMs reached. Please try again later.'',
      mode = None, vmID = None, containerId = None, executionId = None, fromCache = False\<rparr>"

definition runJavaScript_v1 :: "env \<Rightarrow> string \<Rightarrow> state \<Rightarrow> result completion \<times> state" where
  \<comment> \<open>in the \<^verbatim>\<open>finally\<close> block the decrement follows \<^verbatim>\<open>await fs.remove\<close> inside one \<^verbatim>\<open>try\<close>\<close>
  "runJavaScript_v1 e code s =
     (if vmCount s \<ge> maxVMs s then (Returns queue_full_v1, s)
      else
        let i = uuid e;
            s1 = s\<lparr>vmCount := vmCount s + 1\<rparr>;
            (c, s2) =
              (case writeFile_err e of Some m \<Rightarrow> (Throws m, s1) | None \<Rightarrow>
               let s2 = s1\<lparr>files := insert (codeFile s1 i) (files s1)\<rparr> in
               case execPromise (node_run e code) of
                 Pending \<Rightarrow> (Hangs, s2)
               | Rejected m \<Rightarrow> (Throws m, s2)
               | Resolved (out, err) \<Rightarrow>
                   (Returns \<lparr>success = True, output_text = trim out, error = Some (trim err),
                             mode = Some ''direct-execution'', vmID = Some i,
                             containerId = None, executionId = None, fromCache = False\<rparr>, s2))
        in case c of
          Hangs \<Rightarrow> (Hangs, s2)
        | _ \<Rightarrow>
            let r = (case c of
                       Throws m \<Rightarrow> Returns (failed (Some m) ''direct-execution'')
                     | _ \<Rightarrow> c);
                s3 = (if remove_code_fails e then s2
                      else s2\<lparr>files := files s2 - {codeFile s2 i}, vmCount := vmCount s2 - 1\<rparr>)
            in (r, s3))"

section \<open>The HTTP front end (\<^verbatim>\<open>index.js\<close>)\<close>

text \<open>The \<^verbatim>\<open>code\<close> property of the parsed JSON body: absent, or any JSON value.\<close>

datatype body_code = Missing | JNull | JBool bool | JNum rat | JStr string | JCompound

fun falsy :: "body_code \<Rightarrow> bool" where
  \<comment> \<open>\<^verbatim>\<open>!code\<close>\<close>
  "falsy Missing = True"
| "falsy JNull = True"
| "falsy (JBool b) = (\<not> b)"
| "falsy (JNum x) = (x = 0)"
| "falsy (JStr t) = (t = [])"
| "falsy JCompound = False"

datatype payload = ErrorBody string | ResultBody result

datatype response = Json nat payload

text \<open>The module state: its response cache, the flag set by \<^verbatim>\<open>checkFirecracker\<close>, and
  the state of the runner module it requires.\<close>

record 'r server =
  outputCache :: "(string \<times> result) list"
  firecrackerAvailable :: bool
  runner :: 'r

definition executeLocalJS :: "(string \<Rightarrow> script_run) \<Rightarrow> string \<Rightarrow> result completion" where
  \<comment> \<open>only \<^verbatim>\<open>console.log\<close> is captured; reading \<^verbatim>\<open>message\<close> of a thrown
      \<^verbatim>\<open>null\<close> throws out of the \<^verbatim>\<open>catch\<close> block\<close>
  "executeLocalJS local_run code =
     (let run = local_run code in
      case raised run of
        None \<Rightarrow>
          Returns \<lparr>success = True,
                   output_text =
                     trim (concat (map (\<lambda>c. case c of Log args \<Rightarrow> join '' '' args @ [CHR 0x0A]
                                                | _ \<Rightarrow> []) (calls run))),
                   error = Some '''', mode = Some ''local'', vmID = None, containerId = None,
                   executionId = None, fromCache = False\<rparr>
      | Some Nullish \<Rightarrow> Throws type_error
      | Some (Value isError msg) \<Rightarrow> Returns (failed msg ''local''))"

definition clean :: "result \<Rightarrow> bool" where
  \<comment> \<open>\<^verbatim>\<open>result.success && !result.error\<close>\<close>
  "clean r = (success r \<and> (error r = None \<or> error r = Some ''''))"

definition store :: "string \<Rightarrow> result \<Rightarrow> (string \<times> result) list \<Rightarrow> (string \<times> result) list" where
  \<comment> \<open>"Cache successful results", then "Limit cache size"\<close>
  "store cacheKey r c =
     (if clean r then
        let c1 = Map_set cacheKey r c in
        if Map_size c1 > 100 then
          (case c1 of [] \<Rightarrow> c1 | (firstKey, _) # _ \<Rightarrow> Map_delete firstKey c1)
        else c1
      else c)"

definition execute :: "(string \<Rightarrow> string) \<Rightarrow> (string \<Rightarrow> 'r \<Rightarrow> result completion \<times> 'r) \<Rightarrow>
    (string \<Rightarrow> script_run) \<Rightarrow> body_code \<Rightarrow> 'r server \<Rightarrow> response completion \<times> 'r server" where
  \<comment> \<open>the handler of \<^verbatim>\<open>POST /execute\<close>; \<open>run\<close> is \<^verbatim>\<open>firecrackerRunner.runJavaScript\<close> of
      whichever runner module is installed.  The assignment \<^verbatim>\<open>result.mode = 'firecracker'\<close>
      is made on the object the runner returned.\<close>
  "execute md5 run local_run code st =
     (if falsy code then (Returns (Json 400 (ErrorBody ''No code provided'')), st)
      else case code of
        JStr src \<Rightarrow>
          (let cacheKey = md5 src in
           case Map_get cacheKey (outputCache st) of
             Some r \<Rightarrow> (Returns (Json 200 (ResultBody r)), st)
           | None \<Rightarrow>
               (let (c, st1) =
                  (if firecrackerAvailable st then
                     (case run src (runner st) of
                        (Returns r, rs) \<Rightarrow>
                          (Returns (r\<lparr>mode := Some ''firecracker''\<rparr>), st\<lparr>runner := rs\<rparr>)
                      | (c, rs) \<Rightarrow> (c, st\<lparr>runner := rs\<rparr>))
                   else (executeLocalJS local_run src, st))
                in case c of
                  Hangs \<Rightarrow> (Hangs, st1)
                | Throws m \<Rightarrow> (Returns (Json 500 (ErrorBody m)), st1)
                | Returns r \<Rightarrow>
                    (Returns (Json 200 (ResultBody r)),
                     st1\<lparr>outputCache := store cacheKey r (outputCache st1)\<rparr>)))
      | _ \<Rightarrow> (Returns (Json 500 (ErrorBody type_error)), st))"

section \<open>Reachable states and sample inputs\<close>

text \<open>The states the enhanced runner object goes through: it is constructed, the probe of
  \<^verbatim>\<open>checkAvailableExecutors\<close> may set either flag, and its methods are called one after the
  other.  A call that hangs leaves the object as it was when the call stopped.\<close>

inductive reachable :: "(string \<Rightarrow> string) \<Rightarrow> state \<Rightarrow> bool" for md5 :: "string \<Rightarrow> string" where
  r_constructed: "reachable md5 (constructed dir fs)"
| r_firecracker: "reachable md5 s \<Longrightarrow> reachable md5 (s\<lparr>useFirecracker := True\<rparr>)"
| r_docker: "reachable md5 s \<Longrightarrow> reachable md5 (s\<lparr>useDocker := True\<rparr>)"
| r_run: "reachable md5 s \<Longrightarrow> reachable md5 (snd (runJavaScript md5 e code s))"
| r_clear: "reachable md5 s \<Longrightarrow> reachable md5 (clearCache s)"
| r_shutdown: "reachable md5 s \<Longrightarrow> reachable md5 (snd (shutdown c s))"

text \<open>The states of the front end, for any runner module \<open>run\<close>.\<close>

inductive served :: "(string \<Rightarrow> string) \<Rightarrow> 'r server \<Rightarrow> bool" for md5 :: "string \<Rightarrow> string" where
  s_started: "served md5 \<lparr>outputCache = [], firecrackerAvailable = False, runner = rs\<rparr>"
| s_checked: "served md5 st \<Longrightarrow> served md5 (st\<lparr>firecrackerAvailable := b\<rparr>)"
| s_request: "served md5 st \<Longrightarrow> served md5 (snd (execute md5 run local_run code st))"

definition all_success :: "(string \<times> result) list \<Rightarrow> bool" where
  "all_success c = (\<forall>x \<in> set c. success (snd x))"

definition all_clean :: "(string \<times> result) list \<Rightarrow> bool" where
  "all_clean c = (\<forall>x \<in> set c. clean (snd x))"

definition returned :: "'a completion \<Rightarrow> bool" where
  "returned c = (case c of Returns _ \<Rightarrow> True | _ \<Rightarrow> False)"

text \<open>A sample environment for the closed examples.  Every file operation works and the
  spawned process can be killed.  The source texts used are
  \<^verbatim>\<open>while(true){}\<close>, which never ends by itself (the Docker command and the sandbox stop it
  at the time limit); \<^verbatim>\<open>console.log(1)\<close>, also followed by any number of empty statements
  \<^verbatim>\<open>;\<close>, which prints \<^verbatim>\<open>1\<close>; \<^verbatim>\<open>console.error(1)\<close>, which prints \<^verbatim>\<open>1\<close> on standard
  error; and \<^verbatim>\<open>console.log(1);throw 1\<close>, which prints \<^verbatim>\<open>1\<close> and then throws the number 1.
  Any other text is taken to be rejected; no example uses one.\<close>

definition logs_one :: "string \<Rightarrow> bool" where
  "logs_one code =
     (take 14 code = ''console.log(1)'' \<and> list_all (\<lambda>c. c = CHR '';'') (drop 14 code))"

definition sample_child :: "string \<Rightarrow> string \<Rightarrow> child_run" where
  \<comment> \<open>\<open>on_loop\<close>: the message when the command itself stops the unbounded loop\<close>
  "sample_child on_loop code =
     (if code = ''while(true){}'' then (if on_loop = [] then NeverExits else ExitErr on_loop)
      else if logs_one code then Exit0 (''1'' @ [CHR 0x0A]) ''''
      else if code = ''console.error(1)'' then Exit0 '''' (''1'' @ [CHR 0x0A])
      else ExitErr ''Command failed'')"

definition sample_script :: "string \<Rightarrow> script_run" where
  "sample_script code =
     (if code = ''while(true){}''
      then \<lparr>calls = [], raised = Some (Value True (Some ''Script execution timed out after 5000ms''))\<rparr>
      else if logs_one code then \<lparr>calls = [Log [''1'']], raised = None\<rparr>
      else if code = ''console.error(1)'' then \<lparr>calls = [Error [''1'']], raised = None\<rparr>
      else if code = ''console.log(1);throw 1''
      then \<lparr>calls = [Log [''1'']], raised = Some (Value False None)\<rparr>
      else \<lparr>calls = [], raised = Some (Value True (Some ''Invalid or unexpected token''))\<rparr>)"

definition sample_env :: env where
  "sample_env =
     \<lparr>uuid = ''u1'', writeFile_err = None, writeJson_err = None,
      spawn_res = Inr (Proc 1 None), sock_created = True,
      node_run = sample_child '''',
      docker_run = sample_child ''Command failed: docker run timeout 5 node code.js'',
      docker_rm = ExitErr ''Command failed: docker rm -f'',
      vm_run = sample_script,
      remove_code_fails = False, remove_config_fails = False, unlink_sock_fails = False\<rparr>"

text \<open>A file system in which every entry of the directory can be listed and removed.\<close>

definition sample_cleaning :: cleaning where
  "sample_cleaning = \<lparr>readdir_fails = False, mkdirs_fails = False, stuck = {}\<rparr>"

definition sample_state :: state where
  "sample_state = constructed ''/app/temp'' {}"

section \<open>Facts about the \<^verbatim>\<open>Map\<close> operations and the file helpers\<close>

lemma Map_get_set: "Map_get k' (Map_set k v m) = (if k' = k then Some v else Map_get k' m)"
  by (simp add: Map_get_def Map_set_def update_conv')

lemma set_Map_set: "x \<in> set (Map_set k v m) \<Longrightarrow> x = (k, v) \<or> x \<in> set m"
  unfolding Map_set_def by (induction m) (auto split: if_splits)

lemma Map_set_new: "Map_get k m = None \<Longrightarrow> Map_set k v m = m @ [(k, v)]"
  unfolding Map_set_def Map_get_def by (induction m) (auto split: if_splits)

lemma set_Map_delete: "x \<in> set (Map_delete k m) \<Longrightarrow> x \<in> set m"
  unfolding Map_delete_def by (induction m) (auto split: if_splits)

lemma Map_get_delete: "Map_get k (Map_delete k m) = None"
  by (simp add: Map_get_def Map_delete_def delete_conv')

lemma rm_simps:
  "cache (rm f p s) = cache s" "vmCount (rm f p s) = vmCount s"
  "maxVMs (rm f p s) = maxVMs s" "processes (rm f p s) = processes s"
  "tempDir (rm f p s) = tempDir s" "useFirecracker (rm f p s) = useFirecracker s"
  "useDocker (rm f p s) = useDocker s"
  "files (rm f p s) = (if f then files s else files s - {p})"
  by (simp_all add: rm_def)

section \<open>C1: the wall-clock budget\<close>

text \<open>What each backend does with a source text that does not end in time.\<close>

lemma fc_never_exits:
  "vmCount s < maxVMs s \<Longrightarrow> writeFile_err e = None \<Longrightarrow> writeJson_err e = None \<Longrightarrow>
   spawn_res e = Inr p \<Longrightarrow> node_run e code = NeverExits \<Longrightarrow>
   fst (runWithFirecracker e code i h s) = Hangs \<and>
   vmCount (snd (runWithFirecracker e code i h s)) = vmCount s + 1 \<and>
   Map_get i (processes (snd (runWithFirecracker e code i h s))) = Some p"
  by (simp add: runWithFirecracker_def fc_try_def execPromise_def Let_def Map_get_set)

lemma sandbox_times_out:
  "raised (vm_run e code) = Some (Value True (Some (''Script execution timed out after '' @ ms))) \<Longrightarrow>
   runWithVMSandbox e code i h s = (Returns (failed (Some ''Execution timed out'') ''vm-sandbox''), s)"
  by (simp add: runWithVMSandbox_def Let_def split: prod.splits)

lemma docker_times_out:
  "writeFile_err e = None \<Longrightarrow> docker_run e code = ExitErr m \<Longrightarrow> includes_str m ''timeout'' \<Longrightarrow>
   docker_rm e \<noteq> NeverExits \<Longrightarrow>
   fst (runWithDocker e code i h s) = Returns (failed (Some ''Execution timed out'') ''docker'')"
  by (auto simp: runWithDocker_def execPromise_def Let_def split: child_run.splits)

text \<open>
  C1 says that on every backend a source text running past the configured budget comes
  back as a Timeout result and never blocks the caller.  The Docker command carries
  \<^verbatim>\<open>timeout\<close> and the sandbox passes \<^verbatim>\<open>timeout: this.executionTimeout\<close>, but
  \<^verbatim>\<open>runWithFirecracker\<close> awaits \<^verbatim>\<open>execPromise(`node ${codeFile}`)\<close> with no time limit at
  all (\<open>fc_never_exits\<close>).  On the unbounded loop the call never returns: the slot stays
  taken, the process stays registered and running, and the three artifacts stay on disk.
\<close>

theorem C1_firecracker_loop_never_returns:
  "runWithFirecracker sample_env ''while(true){}'' ''u1'' ''h1''
     (sample_state\<lparr>useFirecracker := True\<rparr>) =
   (Hangs, sample_state\<lparr>useFirecracker := True, vmCount := 1,
       processes := [(''u1'', Proc 1 None)],
       files := {''/tmp/firecracker-u1.sock'', ''/app/temp/u1-config.json'', ''/app/temp/u1.js''},
       running := {1}\<rparr>)"
  by (simp add: runWithFirecracker_def fc_try_def sample_env_def sample_child_def sample_state_def
      constructed_def execPromise_def Let_def codeFile_def configFile_def socketPath_def
      Map_set_def)

section \<open>C10: the empty source text\<close>

text \<open>
  C10: the handler of \<^verbatim>\<open>POST /execute\<close> answers the empty string exactly as it answers a
  body without \<^verbatim>\<open>code\<close>: status 400 with "No code provided", whatever the digest
  function, the runner and the local engine are, and with the module state untouched.
  With a runner that records every source text it is given, the record never gains the
  empty text.
\<close>

theorem C10_empty_source_rejected:
  "execute md5 run local_run (JStr '''') st =
     (Returns (Json 400 (ErrorBody ''No code provided'')), st) \<and>
   execute md5 run local_run Missing st =
     (Returns (Json 400 (ErrorBody ''No code provided'')), st) \<and>
   ('''' \<notin> set (runner st') \<longrightarrow>
    '''' \<notin> set (runner (snd (execute md5 (\<lambda>src rs. (c src rs, src # rs)) local_run code st'))))"
proof -
  have "'''' \<notin> set (runner (snd (execute md5 (\<lambda>src rs. (c src rs, src # rs)) local_run code st')))"
    if "'''' \<notin> set (runner st')"
    using that
    by (cases code)
       (auto simp: execute_def Let_def split: option.splits completion.splits prod.splits)
  then show ?thesis by (simp add: execute_def)
qed

theorem C10_empty_source_rejected_witness:
  "'''' \<notin> set (runner \<lparr>outputCache = [], firecrackerAvailable = True, runner = []\<rparr>) \<and>
   runner (snd (execute (\<lambda>src. src) (\<lambda>src rs. (Hangs, src # rs)) (\<lambda>src. \<lparr>calls = [], raised = None\<rparr>)
       (JStr ''1'') \<lparr>outputCache = [], firecrackerAvailable = True, runner = []\<rparr>)) = [''1''] \<and>
   runner (snd (execute (\<lambda>src. src) (\<lambda>src rs. (Hangs, src # rs)) (\<lambda>src. \<lparr>calls = [], raised = None\<rparr>)
       (JStr '''') \<lparr>outputCache = [], firecrackerAvailable = True, runner = []\<rparr>)) = []"
  using C10_empty_source_rejected [of "\<lambda>src. src" "\<lambda>src rs. (Hangs, src # rs)"
      "\<lambda>src. \<lparr>calls = [], raised = None\<rparr>"
      "\<lparr>outputCache = [], firecrackerAvailable = True, runner = []\<rparr>"
      "\<lparr>outputCache = [], firecrackerAvailable = True, runner = []\<rparr>" "\<lambda>src rs. Hangs" "JStr ''1''"]
  by (simp add: execute_def Map_get_def)

section \<open>The result cache of the enhanced runner holds successes only\<close>


lemma all_success_set: "all_success c \<Longrightarrow> success r \<Longrightarrow> all_success (Map_set k r c)"
  unfolding all_success_def using set_Map_set by fastforce

lemma all_success_get: "all_success c \<Longrightarrow> Map_get k c = Some r \<Longrightarrow> success r"
  unfolding all_success_def Map_get_def by (force dest: map_of_SomeD)

lemma fc_finally_cache: "cache (snd (fc_finally e i s)) = cache s"
  by (auto simp: fc_finally_def Let_def rm_simps split: option.splits sum.splits)

lemma fc_try_all_success:
  "all_success (cache s) \<Longrightarrow> all_success (cache (snd (fc_try e code i h s)))"
  by (auto simp: fc_try_def Let_def all_success_set split: option.splits sum.splits promise.splits)

lemma fc_try_returns:
  "fc_try e code i h s = (Returns r, s') \<Longrightarrow> success r \<and> Map_get h (cache s') = Some r"
  by (auto simp: fc_try_def Let_def Map_get_set split: option.splits sum.splits promise.splits)

lemma fc_unfold:
  "\<not> maxVMs s \<le> vmCount s \<Longrightarrow> fc_try e code i h s = (c1, s1) \<Longrightarrow> fc_finally e i s1 = (d, s2) \<Longrightarrow>
   runWithFirecracker e code i h s =
     (case c1 of Hangs \<Rightarrow> (Hangs, s1)
      | _ \<Rightarrow> (case d of Throws m \<Rightarrow> (Throws m, s2)
              | _ \<Rightarrow> (case c1 of Throws m \<Rightarrow> Returns (failed (Some m) ''firecracker'') | _ \<Rightarrow> c1, s2)))"
  by (simp add: runWithFirecracker_def split: completion.splits)

lemma fc_all_success:
  assumes "all_success (cache s)"
  shows "all_success (cache (snd (runWithFirecracker e code i h s)))"
proof (cases "maxVMs s \<le> vmCount s")
  case True
  with assms show ?thesis by (simp add: runWithFirecracker_def)
next
  case False
  obtain c1 s1 where t: "fc_try e code i h s = (c1, s1)" by (cases "fc_try e code i h s")
  obtain d s2 where f: "fc_finally e i s1 = (d, s2)" by (cases "fc_finally e i s1")
  have "all_success (cache s1)" using fc_try_all_success [OF assms, of e code i h] t by simp
  moreover have "cache s2 = cache s1" using fc_finally_cache [of e i s1] f by simp
  ultimately show ?thesis
    by (simp add: fc_unfold [OF False t f] split: completion.splits)
qed

lemma fc_failure_output:
  assumes "fst (runWithFirecracker e code i h s) = Returns r" "\<not> success r"
  shows "output_text r = ''''"
proof (cases "maxVMs s \<le> vmCount s")
  case True
  with assms show ?thesis by (auto simp: runWithFirecracker_def queue_full_def)
next
  case False
  obtain c1 s1 where t: "fc_try e code i h s = (c1, s1)" by (cases "fc_try e code i h s")
  obtain d s2 where f: "fc_finally e i s1 = (d, s2)" by (cases "fc_finally e i s1")
  from assms fc_try_returns [of e code i h s r s1] t show ?thesis
    by (auto simp: fc_unfold [OF False t f] failed_def split: completion.splits)
qed


lemma docker_all_success:
  "all_success (cache s) \<Longrightarrow> all_success (cache (snd (runWithDocker e code i h s)))"
  by (auto simp: runWithDocker_def Let_def rm_simps all_success_set
      split: option.splits promise.splits prod.splits completion.splits)

lemma docker_failure_output:
  "fst (runWithDocker e code i h s) = Returns r \<Longrightarrow> \<not> success r \<Longrightarrow> output_text r = ''''"
  by (auto simp: runWithDocker_def Let_def rm_simps failed_def
      split: option.splits promise.splits prod.splits completion.splits if_splits)


lemma sandbox_all_success:
  "all_success (cache s) \<Longrightarrow> all_success (cache (snd (runWithVMSandbox e code i h s)))"
  by (auto simp: runWithVMSandbox_def Let_def all_success_set
      split: option.splits thrown.splits prod.splits)

lemma sandbox_failure_output:
  "fst (runWithVMSandbox e code i h s) = Returns r \<Longrightarrow> \<not> success r \<Longrightarrow> output_text r = ''''"
  by (auto simp: runWithVMSandbox_def Let_def failed_def
      split: option.splits thrown.splits prod.splits if_splits)


lemma run_all_success:
  "all_success (cache s) \<Longrightarrow> all_success (cache (snd (runJavaScript md5 e code s)))"
  by (simp add: runJavaScript_def Let_def fc_all_success docker_all_success sandbox_all_success
      split: option.splits)

lemma reachable_all_success: "reachable md5 s \<Longrightarrow> all_success (cache s)"
proof (induction rule: reachable.induct)
  case (r_constructed dir fs)
  show ?case by (simp add: constructed_def all_success_def)
next
  case (r_run s e code)
  then show ?case by (simp add: run_all_success)
next
  case (r_clear s)
  show ?case by (simp add: clearCache_def all_success_def)
next
  case (r_shutdown s c)
  then show ?case by (simp add: shutdown_def Let_def split: prod.splits)
qed simp_all

lemma v1_failure_output:
  "fst (runJavaScript_v1 e code s) = Returns r \<Longrightarrow> \<not> success r \<Longrightarrow> output_text r = ''''"
  by (auto simp: runJavaScript_v1_def Let_def failed_def queue_full_v1_def
      split: option.splits promise.splits prod.splits completion.splits if_splits)

section \<open>The slot counter\<close>


lemma fc_finally_vmCount:
  "fc_finally e i s = (Returns u, s') \<Longrightarrow> vmCount s' = vmCount s - 1"
  by (auto simp: fc_finally_def Let_def rm_simps split: option.splits sum.splits)

lemma fc_finally_cases:
  "fc_finally e i s = (c, s') \<Longrightarrow>
     (c = Returns () \<and> vmCount s' = vmCount s - 1 \<and> maxVMs s' = maxVMs s) \<or>
     ((\<exists>m. c = Throws m) \<and> s' = s)"
  by (auto simp: fc_finally_def Let_def rm_simps split: option.splits sum.splits)

lemma fc_try_counter:
  "fc_try e code i h s = (c, s') \<Longrightarrow> vmCount s' = vmCount s + 1 \<and> maxVMs s' = maxVMs s"
  by (auto simp: fc_try_def Let_def split: option.splits sum.splits promise.splits)

lemma slot_released_enhanced:
  "runWithFirecracker e code i h s = (Returns r, s') \<Longrightarrow> vmCount s' = vmCount s"
proof (cases "vmCount s \<ge> maxVMs s")
  case True
  assume "runWithFirecracker e code i h s = (Returns r, s')"
  with True show ?thesis by (simp add: runWithFirecracker_def)
next
  case False
  assume run: "runWithFirecracker e code i h s = (Returns r, s')"
  obtain c s1 where t: "fc_try e code i h s = (c, s1)" by (cases "fc_try e code i h s")
  obtain d s2 where f: "fc_finally e i s1 = (d, s2)" by (cases "fc_finally e i s1")
  from run False t f have "s2 = s'" and "d = Returns ()"
    using fc_finally_cases [OF f]
    by (auto simp: runWithFirecracker_def Let_def split: completion.splits)
  with fc_finally_vmCount [of e i s1 "()" s2] f fc_try_counter [OF t]
  show ?thesis by simp
qed

lemma counter_bounds_enhanced:
  assumes "0 \<le> vmCount s" "vmCount s \<le> maxVMs s"
  shows "0 \<le> vmCount (snd (runWithFirecracker e code i h s)) \<and>
         vmCount (snd (runWithFirecracker e code i h s)) \<le> maxVMs (snd (runWithFirecracker e code i h s))"
proof (cases "vmCount s \<ge> maxVMs s")
  case True
  with assms show ?thesis by (simp add: runWithFirecracker_def)
next
  case False
  obtain c s1 where t: "fc_try e code i h s = (c, s1)" by (cases "fc_try e code i h s")
  obtain d s2 where f: "fc_finally e i s1 = (d, s2)" by (cases "fc_finally e i s1")
  from False assms t f fc_finally_cases [OF f] fc_try_counter [OF t]
  show ?thesis
    by (auto simp: runWithFirecracker_def Let_def split: completion.splits)
qed

lemma counter_bounds_v1:
  assumes "0 \<le> vmCount s" "vmCount s \<le> maxVMs s"
  shows "0 \<le> vmCount (snd (runJavaScript_v1 e code s)) \<and>
         vmCount (snd (runJavaScript_v1 e code s)) \<le> maxVMs (snd (runJavaScript_v1 e code s))"
  using assms
  by (auto simp: runJavaScript_v1_def Let_def execPromise_def
      split: option.splits child_run.splits completion.splits)

section \<open>C2: release of the concurrency slot\<close>

lemma v1_failed_removal_keeps_slot:
  "vmCount s < maxVMs s \<Longrightarrow> remove_code_fails e \<Longrightarrow> node_run e code \<noteq> NeverExits \<Longrightarrow>
   vmCount (snd (runJavaScript_v1 e code s)) = vmCount s + 1"
  by (auto simp: runJavaScript_v1_def execPromise_def Let_def
      split: option.splits child_run.splits)

text \<open>
  C2 says that a slot taken by \<^verbatim>\<open>vmCount++\<close> is released exactly once on every exit path,
  so that a failing cleanup step can never starve the pool.  In \<^verbatim>\<open>firecracker-runner.js\<close>
  the \<^verbatim>\<open>finally\<close> block runs \<^verbatim>\<open>await fs.remove(codeFile); this.vmCount--;\<close> inside one
  \<^verbatim>\<open>try\<close>: when the removal rejects, the decrement is skipped.  Three successful
  executions whose code file cannot be removed leave \<open>vmCount = 3\<close>, and the next request is
  turned away although nothing is running.  (The bounds \<open>0 \<le> vmCount \<le> maxVMs\<close> themselves
  are kept by both modules, see \<open>counter_bounds_v1\<close> and \<open>counter_bounds_enhanced\<close>, and the
  enhanced module gives the slot back whenever \<^verbatim>\<open>runWithFirecracker\<close> returns, see
  \<open>slot_released_enhanced\<close>.)
\<close>

theorem C2_failed_cleanup_leaks_slot:
  "fst (runJavaScript_v1 (sample_env\<lparr>remove_code_fails := True\<rparr>) ''console.log(1)'' sample_state) =
     Returns \<lparr>success = True, output_text = ''1'', error = Some '''',
              mode = Some ''direct-execution'', vmID = Some ''u1'', containerId = None,
              executionId = None, fromCache = False\<rparr> \<and>
   vmCount (snd (runJavaScript_v1 (sample_env\<lparr>remove_code_fails := True\<rparr>) ''console.log(1)'' sample_state)) = 1 \<and>
   vmCount (snd (runJavaScript_v1 (sample_env\<lparr>remove_code_fails := True\<rparr>) ''console.log(1)''
     (snd (runJavaScript_v1 (sample_env\<lparr>remove_code_fails := True\<rparr>) ''console.log(1)''
       (snd (runJavaScript_v1 (sample_env\<lparr>remove_code_fails := True\<rparr>) ''console.log(1)'' sample_state)))))) = 3 \<and>
   fst (runJavaScript_v1 sample_env ''console.log(1)''
     (snd (runJavaScript_v1 (sample_env\<lparr>remove_code_fails := True\<rparr>) ''console.log(1)''
       (snd (runJavaScript_v1 (sample_env\<lparr>remove_code_fails := True\<rparr>) ''console.log(1)''
         (snd (runJavaScript_v1 (sample_env\<lparr>remove_code_fails := True\<rparr>) ''console.log(1)'' sample_state))))))) =
     Returns queue_full_v1"
  by (simp add: runJavaScript_v1_def sample_env_def sample_child_def logs_one_def sample_state_def constructed_def
      execPromise_def Let_def codeFile_def trim_def isspace_def)

section \<open>C9: failures carry no output\<close>

text \<open>
  C9: every result returned with \<open>success = false\<close> has the empty string as its output:
  from \<^verbatim>\<open>runJavaScript\<close> of the enhanced runner in any reachable state (cache hit, full
  queue, or any of the three backends), from each backend called on any state, and from
  \<^verbatim>\<open>runJavaScript\<close> of \<^verbatim>\<open>firecracker-runner.js\<close>.
\<close>

theorem C9_failures_have_empty_output:
  "(reachable md5 s \<and> fst (runJavaScript md5 e code s) = Returns r \<and> \<not> success r
      \<longrightarrow> output_text r = '''') \<and>
   (fst (runWithFirecracker e code i h s) = Returns r \<and> \<not> success r \<longrightarrow> output_text r = '''') \<and>
   (fst (runWithDocker e code i h s) = Returns r \<and> \<not> success r \<longrightarrow> output_text r = '''') \<and>
   (fst (runWithVMSandbox e code i h s) = Returns r \<and> \<not> success r \<longrightarrow> output_text r = '''') \<and>
   (fst (runJavaScript_v1 e code s) = Returns r \<and> \<not> success r \<longrightarrow> output_text r = '''')"
proof -
  have "output_text r = ''''"
    if "reachable md5 s" "fst (runJavaScript md5 e code s) = Returns r" "\<not> success r"
  proof (cases "Map_get (md5 code) (cache s)")
    case (Some r')
    with that(2) have "r = r'\<lparr>fromCache := True\<rparr>" by (simp add: runJavaScript_def Let_def)
    moreover have "success r'" using all_success_get [OF reachable_all_success [OF that(1)] Some] .
    ultimately show ?thesis using that(3) by simp
  next
    case None
    with that(2,3) show ?thesis
      by (auto simp: runJavaScript_def Let_def split: if_splits
          dest: fc_failure_output docker_failure_output sandbox_failure_output)
  qed
  then have main: "reachable md5 s \<and> fst (runJavaScript md5 e code s) = Returns r \<and> \<not> success r
      \<longrightarrow> output_text r = ''''"
    by simp
  show ?thesis
    using main fc_failure_output [of e code i h s r] docker_failure_output [of e code i h s r]
      sandbox_failure_output [of e code i h s r] v1_failure_output [of e code s r]
    by simp
qed

theorem C9_failures_have_empty_output_witness:
  "reachable (\<lambda>src. src) sample_state \<and>
   fst (runJavaScript (\<lambda>src. src) sample_env ''console.log(1);throw 1'' sample_state) =
     Returns (failed None ''vm-sandbox'') \<and>
   \<not> success (failed None ''vm-sandbox'') \<and>
   output_text (failed None ''vm-sandbox'') = ''''"
proof -
  have r: "reachable (\<lambda>src. src) sample_state"
    unfolding sample_state_def by (rule reachable.r_constructed)
  have f: "fst (runJavaScript (\<lambda>src. src) sample_env ''console.log(1);throw 1'' sample_state) =
      Returns (failed None ''vm-sandbox'')"
    by (simp add: runJavaScript_def runWithVMSandbox_def sample_env_def sample_script_def
        logs_one_def sample_state_def constructed_def Map_get_def Let_def)
  have n: "\<not> success (failed None ''vm-sandbox'')" by (simp add: failed_def)
  from C9_failures_have_empty_output [of "\<lambda>src. src" sample_state sample_env
      "''console.log(1);throw 1''" "failed None ''vm-sandbox''"] r f n
  show ?thesis by blast
qed

section \<open>C4: the saturated pool\<close>











section \<open>C7: teardown\<close>

lemma fc_try_tempDir: "tempDir (snd (fc_try e code i h s)) = tempDir s"
  by (simp add: fc_try_def Let_def split: option.splits sum.splits promise.splits)

lemma fc_try_tracks:
  "writeFile_err e = None \<Longrightarrow> writeJson_err e = None \<Longrightarrow> spawn_res e = Inr p \<Longrightarrow>
   Map_get i (processes (snd (fc_try e code i h s))) = Some p"
  by (simp add: fc_try_def Let_def Map_get_set split: promise.splits)

lemma fc_finally_teardown:
  "fc_finally e i s = (Returns u, s') \<Longrightarrow>
     Map_get i (processes s') = None \<and>
     (\<forall>p. Map_get i (processes s) = Some p \<longrightarrow> pid p \<notin> running s') \<and>
     (\<not> remove_code_fails e \<longrightarrow> codeFile s i \<notin> files s') \<and>
     (\<not> remove_config_fails e \<longrightarrow> configFile s i \<notin> files s') \<and>
     (\<not> unlink_sock_fails e \<longrightarrow> socketPath i \<notin> files s')"
  by (auto simp: fc_finally_def Let_def rm_def codeFile_def configFile_def Map_get_delete
      split: option.splits sum.splits if_splits)

lemma fc_teardown:
  assumes "vmCount s < maxVMs s" "runWithFirecracker e code i h s = (Returns r, s')"
  shows "Map_get i (processes s') = None \<and>
     (writeFile_err e = None \<and> writeJson_err e = None \<and> spawn_res e = Inr p \<longrightarrow>
        pid p \<notin> running s') \<and>
     (\<not> remove_code_fails e \<longrightarrow> codeFile s i \<notin> files s') \<and>
     (\<not> remove_config_fails e \<longrightarrow> configFile s i \<notin> files s') \<and>
     (\<not> unlink_sock_fails e \<longrightarrow> socketPath i \<notin> files s')"
proof -
  from assms(1) have ns: "\<not> maxVMs s \<le> vmCount s" by simp
  obtain c1 s1 where t: "fc_try e code i h s = (c1, s1)" by (cases "fc_try e code i h s")
  obtain d s2 where f: "fc_finally e i s1 = (d, s2)" by (cases "fc_finally e i s1")
  have td: "tempDir s1 = tempDir s" using fc_try_tempDir [of e code i h s] t by simp
  have tr: "Map_get i (processes s1) = Some p"
    if "writeFile_err e = None" "writeJson_err e = None" "spawn_res e = Inr p"
    using fc_try_tracks [OF that, of i code h s] t by simp
  from assms(2) fc_finally_cases [OF f] have "d = Returns ()" and "s2 = s'"
    by (auto simp: fc_unfold [OF ns t f] split: completion.splits)
  with fc_finally_teardown [of e i s1 "()" s'] f td tr show ?thesis
    by (simp add: codeFile_def configFile_def)
qed

lemma docker_teardown:
  "runWithDocker e code i h s = (Returns r, s') \<Longrightarrow> \<not> remove_code_fails e \<Longrightarrow>
     codeFile s i \<notin> files s'"
  by (auto simp: runWithDocker_def Let_def rm_simps codeFile_def
      split: option.splits promise.splits prod.splits completion.splits if_splits)

lemma sandbox_files: "files (snd (runWithVMSandbox e code i h s)) = files s"
  by (simp add: runWithVMSandbox_def Let_def
      split: option.splits thrown.splits prod.splits)

text \<open>
  C7 as stated fails: removal errors are swallowed, so after a successful Firecracker run
  whose \<^verbatim>\<open>fs.remove(codeFile)\<close> rejected, the code file of that execution is still in the
  scratch directory.
\<close>

theorem C7_failed_removal_leaves_artifact:
  "fst (runWithFirecracker (sample_env\<lparr>remove_code_fails := True\<rparr>) ''console.log(1)'' ''u1''
          ''h1'' (sample_state\<lparr>useFirecracker := True\<rparr>)) =
     Returns \<lparr>success = True, output_text = ''1'', error = Some '''', mode = Some ''firecracker'',
              vmID = Some ''u1'', containerId = None, executionId = None, fromCache = False\<rparr> \<and>
   scratch (snd (runWithFirecracker (sample_env\<lparr>remove_code_fails := True\<rparr>) ''console.log(1)''
          ''u1'' ''h1'' (sample_state\<lparr>useFirecracker := True\<rparr>))) = {''/app/temp/u1.js''}"
  by (auto simp: runWithFirecracker_def fc_try_def fc_finally_def rm_def scratch_def in_dir_def
      sample_env_def sample_child_def logs_one_def sample_state_def constructed_def
      execPromise_def Let_def trim_def isspace_def
      codeFile_def configFile_def socketPath_def Map_set_def Map_get_def Map_delete_def)

text \<open>
  C7 as amended: whenever a Firecracker execution that took a slot returns a result
  (success or failure), the process it spawned and tracked has been terminated and its
  registry entry is absent, and each of the code file, the config file and the socket path
  is absent provided its own removal did not fail, whatever happened to the other
  removals.  A returning Docker execution leaves no code file when the removal did not
  fail; the sandbox touches no file.
\<close>

theorem C7_teardown_best_effort:
  "(vmCount s < maxVMs s \<and> runWithFirecracker e code i h s = (Returns r, s') \<longrightarrow>
      Map_get i (processes s') = None \<and>
      (writeFile_err e = None \<and> writeJson_err e = None \<and> spawn_res e = Inr p \<longrightarrow>
         pid p \<notin> running s') \<and>
      (\<not> remove_code_fails e \<longrightarrow> codeFile s i \<notin> files s') \<and>
      (\<not> remove_config_fails e \<longrightarrow> configFile s i \<notin> files s') \<and>
      (\<not> unlink_sock_fails e \<longrightarrow> socketPath i \<notin> files s')) \<and>
   (runWithDocker e code i h s = (Returns r, s') \<and> \<not> remove_code_fails e \<longrightarrow>
      codeFile s i \<notin> files s') \<and>
   files (snd (runWithVMSandbox e code i h s)) = files s"
  using fc_teardown [of s e code i h r s' p] docker_teardown [of e code i h s r s']
  by (simp add: sandbox_files)

theorem C7_teardown_best_effort_witness:
  "vmCount (sample_state\<lparr>useFirecracker := True\<rparr>) < maxVMs (sample_state\<lparr>useFirecracker := True\<rparr>) \<and>
   spawn_res sample_env = Inr (Proc 1 None) \<and>
   runWithFirecracker sample_env ''console.log(1)'' ''u1'' ''h1''
       (sample_state\<lparr>useFirecracker := True\<rparr>) =
     (Returns \<lparr>success = True, output_text = ''1'', error = Some '''', mode = Some ''firecracker'',
              vmID = Some ''u1'', containerId = None, executionId = None, fromCache = False\<rparr>,
      sample_state\<lparr>useFirecracker := True, cache := [(''h1'',
        \<lparr>success = True, output_text = ''1'', error = Some '''', mode = Some ''firecracker'',
         vmID = Some ''u1'', containerId = None, executionId = None, fromCache = False\<rparr>)]\<rparr>) \<and>
   1 \<notin> running (snd (runWithFirecracker sample_env ''console.log(1)'' ''u1'' ''h1''
       (sample_state\<lparr>useFirecracker := True\<rparr>))) \<and>
   ''/app/temp/u1.js'' \<notin> files (snd (runWithFirecracker sample_env ''console.log(1)'' ''u1'' ''h1''
       (sample_state\<lparr>useFirecracker := True\<rparr>)))"
proof -
  let ?s = "sample_state\<lparr>useFirecracker := True\<rparr>"
  let ?r = "\<lparr>success = True, output_text = ''1'', error = Some '''', mode = Some ''firecracker'',
              vmID = Some ''u1'', containerId = None, executionId = None, fromCache = False\<rparr>"
  have run: "runWithFirecracker sample_env ''console.log(1)'' ''u1'' ''h1'' ?s =
      (Returns ?r, ?s\<lparr>cache := [(''h1'', ?r)]\<rparr>)"
    by (simp add: runWithFirecracker_def fc_try_def fc_finally_def rm_def
      sample_env_def sample_child_def logs_one_def sample_state_def constructed_def
      execPromise_def Let_def trim_def isspace_def insert_Diff_if
      codeFile_def configFile_def socketPath_def Map_set_def Map_get_def Map_delete_def)
  have lt: "vmCount ?s < maxVMs ?s" by (simp add: sample_state_def constructed_def)
  have env: "writeFile_err sample_env = None" "writeJson_err sample_env = None"
    "spawn_res sample_env = Inr (Proc 1 None)" "\<not> remove_code_fails sample_env"
    "\<not> remove_config_fails sample_env" "\<not> unlink_sock_fails sample_env"
    by (simp_all add: sample_env_def)
  from C7_teardown_best_effort [of ?s sample_env "''console.log(1)''" "''u1''" "''h1''" ?r
      "?s\<lparr>cache := [(''h1'', ?r)]\<rparr>" "Proc 1 None"] run lt env
  show ?thesis
    by (simp add: codeFile_def sample_state_def constructed_def)
qed

section \<open>C8: shutdown\<close>

lemma kill_all_subset: "snd (kill_all ps run) \<subseteq> run"
proof (induction ps arbitrary: run)
  case Nil
  show ?case by simp
next
  case (Cons x ps)
  obtain i p where x: "x = (i, p)" by (cases x)
  show ?case
    using Cons.IH [of "run - {pid p}"] Cons.IH [of run] x
    by (auto split: option.splits prod.splits)
qed

lemma kill_all_kills:
  "(i, p) \<in> set ps \<Longrightarrow> kill_err p = None \<Longrightarrow> pid p \<notin> snd (kill_all ps run)"
proof (induction ps arbitrary: run)
  case Nil
  then show ?case by simp
next
  case (Cons x ps)
  obtain j q where x: "x = (j, q)" by (cases x)
  show ?case
  proof (cases "kill_err q")
    case None
    then have eq: "snd (kill_all (x # ps) run) = snd (kill_all ps (run - {pid q}))"
      using x by (simp split: prod.splits)
    show ?thesis
    proof (cases "(i, p) = (j, q)")
      case True
      then show ?thesis
        unfolding eq using kill_all_subset [of ps "run - {pid q}"] by auto
    next
      case False
      with Cons.prems x have "(i, p) \<in> set ps" by auto
      then show ?thesis unfolding eq using Cons.IH Cons.prems(2) by simp
    qed
  next
    case (Some m)
    then have eq: "snd (kill_all (x # ps) run) = snd (kill_all ps run)"
      using x by (simp split: prod.splits)
    from Some Cons.prems x have "(i, p) \<in> set ps" by auto
    then show ?thesis unfolding eq using Cons.IH Cons.prems(2) by simp
  qed
qed

lemma emptyDir_scratch:
  "\<not> readdir_fails c \<Longrightarrow> {p \<in> snd (emptyDir c d fs). in_dir d p} = {p \<in> fs. in_dir d p} \<inter> stuck c"
  by (auto simp: emptyDir_def)

lemma emptyDir_nothing_to_do:
  "readdir_fails c \<or> {p \<in> fs. in_dir d p} \<subseteq> stuck c \<Longrightarrow> snd (emptyDir c d fs) = fs"
  by (auto simp: emptyDir_def)

text \<open>
  C8 as stated fails: when the removal of an entry fails, \<^verbatim>\<open>fs.emptyDir\<close> rejects,
  \<^verbatim>\<open>shutdown\<close> logs the error and completes, and the entry is still in the scratch
  directory (the other entries are removed); a second \<^verbatim>\<open>shutdown\<close> that can remove it then
  changes the state.
\<close>

theorem C8_failed_cleaning_leaves_files:
  "shutdown \<lparr>readdir_fails = False, mkdirs_fails = False, stuck = {''/app/temp/u1.js''}\<rparr>
     (sample_state\<lparr>files := {''/app/temp/u1.js'', ''/app/temp/u2.js''}\<rparr>) =
   (Returns [''Failed to clean temporary directory''],
    sample_state\<lparr>files := {''/app/temp/u1.js''}\<rparr>) \<and>
   scratch (sample_state\<lparr>files := {''/app/temp/u1.js''}\<rparr>) = {''/app/temp/u1.js''} \<and>
   shutdown sample_cleaning (sample_state\<lparr>files := {''/app/temp/u1.js''}\<rparr>) =
   (Returns [''Cleaned temporary directory''], sample_state\<lparr>files := {}\<rparr>)"
  by (auto simp: shutdown_def emptyDir_def scratch_def in_dir_def sample_cleaning_def
      sample_state_def constructed_def Let_def)

text \<open>
  C8 as amended: \<^verbatim>\<open>shutdown\<close> always completes without raising, leaves the process registry
  empty and has terminated every tracked process whose \<^verbatim>\<open>kill()\<close> did not throw; when the
  scratch directory could be listed, exactly the entries whose removal failed are left in
  it, so it is empty when no removal failed; a second \<^verbatim>\<open>shutdown\<close> raises nothing, and it
  changes nothing when it cannot list the directory or cannot remove any entry that is
  left, in particular when the directory is already empty.
\<close>

theorem C8_shutdown_clears_and_repeats:
  "returned (fst (shutdown c s)) \<and>
   processes (snd (shutdown c s)) = [] \<and>
   (\<forall>x \<in> set (processes s). kill_err (snd x) = None \<longrightarrow>
      pid (snd x) \<notin> running (snd (shutdown c s))) \<and>
   (\<not> readdir_fails c \<longrightarrow> scratch (snd (shutdown c s)) = scratch s \<inter> stuck c) \<and>
   returned (fst (shutdown c2 (snd (shutdown c s)))) \<and>
   (readdir_fails c2 \<or> scratch (snd (shutdown c s)) \<subseteq> stuck c2 \<longrightarrow>
      snd (shutdown c2 (snd (shutdown c s))) = snd (shutdown c s))"
proof -
  obtain log1 run1 where k: "kill_all (processes s) (running s) = (log1, run1)"
    by (cases "kill_all (processes s) (running s)")
  let ?s1 = "s\<lparr>processes := [], running := run1\<rparr>"
  obtain rej fs where ed: "emptyDir c (tempDir s) (files s) = (rej, fs)"
    by (cases "emptyDir c (tempDir s) (files s)")
  have sh: "snd (shutdown c s) = ?s1\<lparr>files := fs\<rparr>"
    using k ed by (simp add: shutdown_def Let_def)
  have ret: "returned (fst (shutdown c' s'))" for c' s'
    by (simp add: shutdown_def returned_def Let_def split: prod.splits)
  have killed: "pid (snd x) \<notin> running (snd (shutdown c s))"
    if "x \<in> set (processes s)" "kill_err (snd x) = None" for x
    using kill_all_kills [of "fst x" "snd x" "processes s" "running s"] that k sh by simp
  have scr: "scratch (snd (shutdown c s)) = scratch s \<inter> stuck c" if "\<not> readdir_fails c"
    using emptyDir_scratch [OF that, of "tempDir s" "files s"] ed sh
    by (simp add: scratch_def)
  have idem: "snd (shutdown c2 (snd (shutdown c s))) = snd (shutdown c s)"
    if "readdir_fails c2 \<or> scratch (snd (shutdown c s)) \<subseteq> stuck c2"
  proof -
    from that sh have "snd (emptyDir c2 (tempDir s) fs) = fs"
      by (intro emptyDir_nothing_to_do) (simp add: scratch_def)
    then obtain rej2 where "emptyDir c2 (tempDir s) fs = (rej2, fs)"
      by (cases "emptyDir c2 (tempDir s) fs") simp
    then show ?thesis
      unfolding sh by (simp add: shutdown_def Let_def)
  qed
  from ret killed scr idem sh show ?thesis by simp
qed

theorem C8_shutdown_clears_and_repeats_witness:
  "shutdown sample_cleaning
     (sample_state\<lparr>useFirecracker := True, vmCount := 1, processes := [(''u1'', Proc 1 None)],
        files := {''/tmp/firecracker-u1.sock'', ''/app/temp/u1-config.json'', ''/app/temp/u1.js''},
        running := {1}\<rparr>) =
   (Returns [''Terminated process for VM u1'', ''Cleaned temporary directory''],
    sample_state\<lparr>useFirecracker := True, vmCount := 1, processes := [],
        files := {''/tmp/firecracker-u1.sock''}, running := {}\<rparr>) \<and>
   scratch (sample_state\<lparr>useFirecracker := True, vmCount := 1, processes := [],
        files := {''/tmp/firecracker-u1.sock''}, running := {}\<rparr>) = {} \<and>
   snd (shutdown sample_cleaning
     (sample_state\<lparr>useFirecracker := True, vmCount := 1, processes := [],
        files := {''/tmp/firecracker-u1.sock''}, running := {}\<rparr>)) =
   sample_state\<lparr>useFirecracker := True, vmCount := 1, processes := [],
        files := {''/tmp/firecracker-u1.sock''}, running := {}\<rparr>"
proof -
  let ?s = "sample_state\<lparr>useFirecracker := True, vmCount := 1, processes := [(''u1'', Proc 1 None)],
        files := {''/tmp/firecracker-u1.sock'', ''/app/temp/u1-config.json'', ''/app/temp/u1.js''},
        running := {1}\<rparr>"
  let ?t = "sample_state\<lparr>useFirecracker := True, vmCount := 1, processes := [],
        files := {''/tmp/firecracker-u1.sock''}, running := {}\<rparr>"
  have a: "shutdown sample_cleaning ?s =
      (Returns [''Terminated process for VM u1'', ''Cleaned temporary directory''], ?t)"
    by (auto simp: shutdown_def emptyDir_def in_dir_def sample_cleaning_def sample_state_def
        constructed_def Let_def)
  have b: "\<not> readdir_fails sample_cleaning" "stuck sample_cleaning = {}"
    by (simp_all add: sample_cleaning_def)
  from C8_shutdown_clears_and_repeats [of sample_cleaning ?s sample_cleaning] a b
  show ?thesis by simp
qed

section \<open>C3: what the caches hold\<close>

lemma store_unless_clean: "\<not> clean r \<Longrightarrow> store k r c = c"
  by (simp add: store_def)

lemma all_clean_set: "all_clean c \<Longrightarrow> clean r \<Longrightarrow> all_clean (Map_set k r c)"
  unfolding all_clean_def using set_Map_set by fastforce

lemma all_clean_delete: "all_clean c \<Longrightarrow> all_clean (Map_delete k c)"
  unfolding all_clean_def using set_Map_delete by fastforce

lemma store_all_clean: "all_clean c \<Longrightarrow> all_clean (store k r c)"
proof (cases "clean r")
  case False
  assume "all_clean c"
  with False show ?thesis by (simp add: store_unless_clean)
next
  case True
  assume "all_clean c"
  with True have "all_clean (Map_set k r c)" by (simp add: all_clean_set)
  then show ?thesis using True
    by (auto simp: store_def Let_def all_clean_delete split: list.splits)
qed

lemma execute_all_clean:
  "all_clean (outputCache st) \<Longrightarrow> all_clean (outputCache (snd (execute md5 run local_run code st)))"
  by (cases code)
     (auto simp: execute_def Let_def store_all_clean
       split: option.splits completion.splits prod.splits)

lemma served_all_clean: "served md5 st \<Longrightarrow> all_clean (outputCache st)"
proof (induction rule: served.induct)
  case (s_started rs)
  show ?case by (simp add: all_clean_def)
next
  case (s_checked st b)
  then show ?case by simp
next
  case (s_request st run local_run code)
  then show ?case by (simp add: execute_all_clean)
qed

text \<open>
  C3 as stated fails for the runner's own cache: every backend stores its result
  unconditionally once the run ended without exception, with \<open>error\<close> set to whatever
  was written to standard error.  The sandbox run of \<^verbatim>\<open>console.error(1)\<close> stores a result
  whose error is \<^verbatim>\<open>1\<close>.
\<close>

theorem C3_runner_caches_stderr:
  "runWithVMSandbox sample_env ''console.error(1)'' ''u1'' ''cce60da45a840f3d93015abfd078ca35''
     sample_state =
   (Returns \<lparr>success = True, output_text = '''', error = Some ''1'', mode = Some ''vm-sandbox'',
             vmID = None, containerId = None, executionId = Some ''u1'', fromCache = False\<rparr>,
    sample_state\<lparr>cache := [(''cce60da45a840f3d93015abfd078ca35'',
       \<lparr>success = True, output_text = '''', error = Some ''1'', mode = Some ''vm-sandbox'',
        vmID = None, containerId = None, executionId = Some ''u1'', fromCache = False\<rparr>)]\<rparr>)"
  by (simp add: runWithVMSandbox_def sample_env_def sample_script_def sample_child_def logs_one_def sample_state_def constructed_def Let_def
      Map_set_def)

text \<open>
  C3 as amended: the front end's store is a no-op unless the result has \<open>success = true\<close>
  and an empty (or absent) error, so in every state of the front end its cache holds only
  such results; in every reachable state of the enhanced runner its cache holds only
  results with \<open>success = true\<close> (their error may be non-empty).
\<close>

theorem C3_caches_hold_successes:
  "(\<not> clean r \<longrightarrow> store k r c = c) \<and>
   (served md5 st \<longrightarrow> all_clean (outputCache st)) \<and>
   (reachable md5 s \<longrightarrow> all_success (cache s))"
  by (simp add: store_unless_clean served_all_clean reachable_all_success)

theorem C3_caches_hold_successes_witness:
  "\<not> clean (failed (Some ''boom'') ''local'') \<and>
   store ''k'' (failed (Some ''boom'') ''local'') [] = [] \<and>
   served (\<lambda>src. src)
     (snd (execute (\<lambda>src. src) (\<lambda>src rs. (Hangs, rs)) sample_script
        (JStr ''console.log(1)'') \<lparr>outputCache = [], firecrackerAvailable = False, runner = ()\<rparr>)) \<and>
   all_clean (outputCache
     (snd (execute (\<lambda>src. src) (\<lambda>src rs. (Hangs, rs)) sample_script
        (JStr ''console.log(1)'') \<lparr>outputCache = [], firecrackerAvailable = False, runner = ()\<rparr>))) \<and>
   length (outputCache
     (snd (execute (\<lambda>src. src) (\<lambda>src rs. (Hangs, rs)) sample_script
        (JStr ''console.log(1)'') \<lparr>outputCache = [], firecrackerAvailable = False, runner = ()\<rparr>))) = 1 \<and>
   reachable (\<lambda>src. src) (snd (runJavaScript (\<lambda>src. src) sample_env ''console.error(1)'' sample_state)) \<and>
   all_success (cache (snd (runJavaScript (\<lambda>src. src) sample_env ''console.error(1)'' sample_state))) \<and>
   length (cache (snd (runJavaScript (\<lambda>src. src) sample_env ''console.error(1)'' sample_state))) = 1"
proof -
  let ?st = "snd (execute (\<lambda>src. src) (\<lambda>src rs. (Hangs, rs))
        sample_script
        (JStr ''console.log(1)'') \<lparr>outputCache = [], firecrackerAvailable = False, runner = ()\<rparr>)"
  let ?s = "snd (runJavaScript (\<lambda>src. src) sample_env ''console.error(1)'' sample_state)"
  have n: "\<not> clean (failed (Some ''boom'') ''local'')" by (simp add: clean_def failed_def)
  have sv: "served (\<lambda>src. src) ?st" by (rule served.s_request) (rule served.s_started)
  have rc: "reachable (\<lambda>src. src) ?s"
    unfolding sample_state_def by (rule reachable.r_run) (rule reachable.r_constructed)
  have l1: "length (outputCache ?st) = 1"
    by (simp add: sample_script_def logs_one_def execute_def executeLocalJS_def store_def Map_get_def Map_set_def Map_size_def
        Let_def clean_def)
  have l2: "length (cache ?s) = 1"
    by (simp add: runJavaScript_def runWithVMSandbox_def sample_env_def sample_script_def sample_child_def logs_one_def sample_state_def
        constructed_def Let_def Map_set_def Map_get_def)
  from C3_caches_hold_successes [of "failed (Some ''boom'') ''local''" "''k''" "[]"
      "\<lambda>src. src" ?st ?s] n sv rc l1 l2
  show ?thesis by simp
qed

section \<open>C6: the second submission of a source text\<close>







section \<open>C5: capacity and eviction\<close>

lemma store_size: "Map_size c \<le> 100 \<Longrightarrow> Map_size (store k r c) \<le> 100"
proof (cases "clean r")
  case False
  assume "Map_size c \<le> 100"
  with False show ?thesis by (simp add: store_def)
next
  case True
  assume le: "Map_size c \<le> 100"
  have "length (Map_set k r c) \<le> Suc (length c)"
    unfolding Map_set_def by (induction c) auto
  with le have l: "length (Map_set k r c) \<le> 101" by (simp add: Map_size_def)
  show ?thesis
  proof (cases "Map_set k r c")
    case Nil
    with True show ?thesis by (simp add: store_def Map_size_def)
  next
    case (Cons p ps)
    have "length (AList.delete (fst p) ps) \<le> length ps" by (rule length_delete_le)
    with True Cons l show ?thesis
      by (cases p) (auto simp: store_def Let_def Map_size_def Map_delete_def)
  qed
qed

lemma served_size: "served md5 st \<Longrightarrow> Map_size (outputCache st) \<le> 100"
proof (induction rule: served.induct)
  case (s_started rs)
  show ?case by (simp add: Map_size_def)
next
  case (s_checked st b)
  then show ?case by simp
next
  case (s_request st run local_run code)
  then show ?case
    by (cases code)
       (auto simp: execute_def Let_def store_size
         split: option.splits completion.splits prod.splits)
qed

lemma store_new:
  assumes "clean r" "k \<notin> fst ` set c" "distinct (map fst c)"
  shows "store k r c = (if length c < 100 then c @ [(k, r)] else tl c @ [(k, r)])"
proof -
  from assms(2) have "Map_get k c = None" by (simp add: Map_get_def map_of_eq_None_iff)
  then have app: "Map_set k r c = c @ [(k, r)]" by (rule Map_set_new)
  show ?thesis
  proof (cases c)
    case Nil
    with assms(1) app show ?thesis by (simp add: store_def Map_size_def)
  next
    case (Cons p ps)
    with assms(2,3) have "fst p \<notin> fst ` set (ps @ [(k, r)])" by auto
    then have "AList.delete (fst p) (ps @ [(k, r)]) = ps @ [(k, r)]" by (rule delete_id)
    with assms(1) app Cons show ?thesis
      by (cases p) (auto simp: store_def Let_def Map_size_def Map_delete_def)
  qed
qed

lemma stores_fifo:
  "distinct (map fst kvs) \<Longrightarrow> \<forall>x \<in> set kvs. clean (snd x) \<Longrightarrow>
   foldl (\<lambda>c (k, r). store k r c) [] kvs = drop (length kvs - 100) kvs"
proof (induction kvs rule: rev_induct)
  case Nil
  show ?case by simp
next
  case (snoc x xs)
  obtain k r where x: "x = (k, r)" by (cases x)
  let ?c = "drop (length xs - 100) xs"
  from snoc have ih: "foldl (\<lambda>c (k, r). store k r c) [] xs = ?c" by simp
  from snoc.prems x have cl: "clean r" by simp
  from snoc.prems x have "k \<notin> fst ` set xs" by auto
  then have nk: "k \<notin> fst ` set ?c" using set_drop_subset [of "length xs - 100" xs] by blast
  from snoc.prems have d: "distinct (map fst ?c)" by (simp add: drop_map [symmetric] distinct_drop)
  have "store k r ?c = drop (length (xs @ [x]) - 100) (xs @ [x])"
  proof (cases "length xs < 100")
    case True
    then show ?thesis using store_new [OF cl nk d] x by simp
  next
    case False
    then have "Suc (length xs) - 100 = Suc (length xs - 100)" by simp
    then have "tl ?c = drop (Suc (length xs) - 100) xs"
      by (simp only: drop_Suc tl_drop)
    with False show ?thesis using store_new [OF cl nk d] x by simp
  qed
  with ih x show ?case by simp
qed

lemma Map_has_set: "Map_has k (Map_set h r c) = (k = h \<or> Map_has k c)"
  by (simp add: Map_has_def Map_set_def update_conv')

lemma fc_try_keeps: "Map_has k (cache s) \<Longrightarrow> Map_has k (cache (snd (fc_try e code i h s)))"
  by (auto simp: fc_try_def Let_def Map_has_set split: option.splits sum.splits promise.splits)

lemma fc_keeps:
  assumes "Map_has k (cache s)"
  shows "Map_has k (cache (snd (runWithFirecracker e code i h s)))"
proof (cases "maxVMs s \<le> vmCount s")
  case True
  with assms show ?thesis by (simp add: runWithFirecracker_def)
next
  case False
  obtain c1 s1 where t: "fc_try e code i h s = (c1, s1)" by (cases "fc_try e code i h s")
  obtain d s2 where f: "fc_finally e i s1 = (d, s2)" by (cases "fc_finally e i s1")
  have "Map_has k (cache s1)" using fc_try_keeps [OF assms, of e code i h] t by simp
  moreover have "cache s2 = cache s1" using fc_finally_cache [of e i s1] f by simp
  ultimately show ?thesis
    by (simp add: fc_unfold [OF False t f] split: completion.splits)
qed

lemma docker_keeps:
  "Map_has k (cache s) \<Longrightarrow> Map_has k (cache (snd (runWithDocker e code i h s)))"
  by (auto simp: runWithDocker_def Let_def rm_simps Map_has_set
      split: option.splits promise.splits prod.splits completion.splits)

lemma sandbox_keeps:
  "Map_has k (cache s) \<Longrightarrow> Map_has k (cache (snd (runWithVMSandbox e code i h s)))"
  by (auto simp: runWithVMSandbox_def Let_def Map_has_set
      split: option.splits thrown.splits prod.splits)

lemma run_keeps:
  "Map_has k (cache s) \<Longrightarrow> Map_has k (cache (snd (runJavaScript md5 e code s)))"
  by (simp add: runJavaScript_def Let_def fc_keeps docker_keeps sandbox_keeps split: option.splits)

lemma sandbox_adds:
  "raised (vm_run e code) = None \<Longrightarrow> Map_get h (cache s) = None \<Longrightarrow>
     length (cache (snd (runWithVMSandbox e code i h s))) = Suc (length (cache s))"
  by (auto simp: runWithVMSandbox_def Let_def Map_set_new split: prod.splits)

lemma sandbox_other:
  "k \<noteq> h \<Longrightarrow> Map_get k (cache (snd (runWithVMSandbox e code i h s))) = Map_get k (cache s)"
  by (simp add: runWithVMSandbox_def Let_def Map_get_set
      split: option.splits thrown.splits prod.splits)

lemma sandbox_flags:
  "useFirecracker (snd (runWithVMSandbox e code i h s)) = useFirecracker s \<and>
   useDocker (snd (runWithVMSandbox e code i h s)) = useDocker s"
  by (simp add: runWithVMSandbox_def Let_def
      split: option.splits thrown.splits prod.splits)

lemma run_is_sandbox:
  "\<not> useFirecracker s \<Longrightarrow> \<not> useDocker s \<Longrightarrow> Map_get (md5 code) (cache s) = None \<Longrightarrow>
   runJavaScript md5 e code s = runWithVMSandbox e code (uuid e) (md5 code) s"
  by (simp add: runJavaScript_def Let_def)

lemma sandbox_runs_length:
  "distinct ks \<Longrightarrow> \<not> useFirecracker s \<Longrightarrow> \<not> useDocker s \<Longrightarrow>
   \<forall>k \<in> set ks. Map_get k (cache s) = None \<and> raised (vm_run (E k) k) = None \<Longrightarrow>
   length (cache (foldl (\<lambda>s k. snd (runJavaScript (\<lambda>src. src) (E k) k s)) s ks)) =
     length (cache s) + length ks"
proof (induction ks arbitrary: s)
  case Nil
  show ?case by simp
next
  case (Cons k ks)
  let ?s1 = "snd (runJavaScript (\<lambda>src. src) (E k) k s)"
  from Cons.prems have sb: "?s1 = snd (runWithVMSandbox (E k) k (uuid (E k)) k s)"
    by (simp add: run_is_sandbox)
  from Cons.prems have a: "length (cache ?s1) = Suc (length (cache s))"
    unfolding sb using sandbox_adds [of "E k" k k s "uuid (E k)"] by simp
  have fl: "\<not> useFirecracker ?s1" "\<not> useDocker ?s1"
    unfolding sb using Cons.prems sandbox_flags [of "E k" k "uuid (E k)" k s] by simp_all
  have "Map_get k' (cache ?s1) = None \<and> raised (vm_run (E k') k') = None" if "k' \<in> set ks" for k'
  proof -
    from that Cons.prems have "k' \<noteq> k" by auto
    then show ?thesis
      unfolding sb using sandbox_other [of k' k "E k" k "uuid (E k)" s] that Cons.prems by simp
  qed
  then have "\<forall>k' \<in> set ks. Map_get k' (cache ?s1) = None \<and> raised (vm_run (E k') k') = None"
    by blast
  with Cons.prems fl
  have "length (cache (foldl (\<lambda>s k. snd (runJavaScript (\<lambda>src. src) (E k) k s)) ?s1 ks)) =
      length (cache ?s1) + length ks"
    using Cons.IH [of ?s1] by simp
  with a show ?case by simp
qed

lemma fc_try_other:
  "k \<noteq> h \<Longrightarrow> Map_get k (cache (snd (fc_try e code i h s))) = Map_get k (cache s)"
  by (simp add: fc_try_def Let_def Map_get_set split: option.splits sum.splits promise.splits)

lemma fc_other:
  assumes "k \<noteq> h"
  shows "Map_get k (cache (snd (runWithFirecracker e code i h s))) = Map_get k (cache s)"
proof (cases "maxVMs s \<le> vmCount s")
  case True
  then show ?thesis by (simp add: runWithFirecracker_def)
next
  case False
  obtain c1 s1 where t: "fc_try e code i h s = (c1, s1)" by (cases "fc_try e code i h s")
  obtain d s2 where f: "fc_finally e i s1 = (d, s2)" by (cases "fc_finally e i s1")
  have "Map_get k (cache s1) = Map_get k (cache s)"
    using fc_try_other [OF assms, of e code i s] t by simp
  moreover have "cache s2 = cache s1" using fc_finally_cache [of e i s1] f by simp
  ultimately show ?thesis
    by (simp add: fc_unfold [OF False t f] split: completion.splits)
qed

lemma docker_other:
  "k \<noteq> h \<Longrightarrow> Map_get k (cache (snd (runWithDocker e code i h s))) = Map_get k (cache s)"
  by (simp add: runWithDocker_def Let_def rm_simps Map_get_set
      split: option.splits promise.splits prod.splits completion.splits)

lemma run_keeps_value:
  assumes "Map_get k (cache s) = Some r"
  shows "Map_get k (cache (snd (runJavaScript md5 e code s))) = Some r"
proof (cases "k = md5 code")
  case True
  with assms show ?thesis by (simp add: runJavaScript_def Let_def)
next
  case False
  with assms show ?thesis
    by (simp add: runJavaScript_def Let_def fc_other docker_other sandbox_other
        split: option.splits)
qed

lemma runs_keep_value:
  "Map_get k (cache s) = Some r \<Longrightarrow>
   Map_get k (cache (foldl (\<lambda>s k. snd (runJavaScript md5 (E k) k s)) s ks)) = Some r"
  by (induction ks arbitrary: s) (simp_all add: run_keeps_value)

lemma sample_script_logs:
  "sample_script (''console.log(1)'' @ replicate n CHR '';'') = \<lparr>calls = [Log [''1'']], raised = None\<rparr>"
  by (simp add: sample_script_def logs_one_def list_all_iff)

text \<open>
  C5 as stated fails for the runner's own cache, which has no capacity and never evicts.
  The 101 source texts \<^verbatim>\<open>console.log(1)\<close>, \<^verbatim>\<open>console.log(1);\<close>, \<^verbatim>\<open>console.log(1);;\<close>, ...
  are pairwise different and each prints \<^verbatim>\<open>1\<close>; after they have been run one after the
  other in the sandbox, each with an id of its own, the runner's cache holds 101 entries
  (more than the 100 of the front end, the only capacity in the repository) and the first
  one is still served from it.  (The identity stands for the MD5 digest.)
\<close>

theorem C5_runner_cache_grows_unbounded:
  "Map_size (cache (foldl (\<lambda>s k. snd (runJavaScript (\<lambda>src. src) (sample_env\<lparr>uuid := ''u-'' @ k\<rparr>) k s))
      sample_state (map (\<lambda>n. ''console.log(1)'' @ replicate n CHR '';'') [0..<101]))) = 101 \<and>
   fst (runJavaScript (\<lambda>src. src) sample_env ''console.log(1)''
     (foldl (\<lambda>s k. snd (runJavaScript (\<lambda>src. src) (sample_env\<lparr>uuid := ''u-'' @ k\<rparr>) k s))
        sample_state (map (\<lambda>n. ''console.log(1)'' @ replicate n CHR '';'') [0..<101]))) =
   Returns \<lparr>success = True, output_text = ''1'', error = Some '''', mode = Some ''vm-sandbox'',
            vmID = None, containerId = None, executionId = Some ''u-console.log(1)'',
            fromCache = True\<rparr>"
proof -
  let ?E = "\<lambda>k. sample_env\<lparr>uuid := ''u-'' @ k\<rparr>"
  let ?ks = "map (\<lambda>n. ''console.log(1)'' @ replicate n CHR '';'') [0..<101]"
  let ?rest = "map (\<lambda>n. ''console.log(1)'' @ replicate n CHR '';'') [1..<101]"
  let ?step = "\<lambda>s k. snd (runJavaScript (\<lambda>src. src) (?E k) k s)"
  let ?r = "\<lparr>success = True, output_text = ''1'', error = Some '''', mode = Some ''vm-sandbox'',
            vmID = None, containerId = None, executionId = Some ''u-console.log(1)'',
            fromCache = False\<rparr>"
  have d: "distinct ?ks" by (simp add: distinct_map inj_on_def)
  have fl: "\<not> useFirecracker sample_state" "\<not> useDocker sample_state"
    by (simp_all add: sample_state_def constructed_def)
  have n: "\<forall>k \<in> set ?ks. Map_get k (cache sample_state) = None \<and> raised (vm_run (?E k) k) = None"
    using sample_script_logs
    by (auto simp: sample_state_def constructed_def Map_get_def sample_env_def)
  have "length (cache (foldl ?step sample_state ?ks)) = length (cache sample_state) + length ?ks"
    using d fl n by (rule sandbox_runs_length)
  then have size: "Map_size (cache (foldl ?step sample_state ?ks)) = 101"
    by (simp add: Map_size_def sample_state_def constructed_def)
  have split: "?ks = ''console.log(1)'' # ?rest"
    by (simp add: upt_conv_Cons)
  have first: "cache (?step sample_state ''console.log(1)'') = [(''console.log(1)'', ?r)]"
    using sample_script_logs [of 0]
    by (simp add: runJavaScript_def runWithVMSandbox_def sample_env_def sample_state_def
        constructed_def Let_def Map_get_def Map_set_def)
  let ?end = "foldl ?step sample_state ?ks"
  have "Map_get ''console.log(1)'' (cache (?step sample_state ''console.log(1)'')) = Some ?r"
    unfolding first by (simp add: Map_get_def)
  then have "Map_get ''console.log(1)'' (cache (foldl ?step (?step sample_state ''console.log(1)'')
      ?rest)) = Some ?r"
    by (rule runs_keep_value)
  then have keep: "Map_get ''console.log(1)'' (cache ?end) = Some ?r"
    by (simp only: split foldl_Cons)
  then have "fst (runJavaScript (\<lambda>src. src) sample_env ''console.log(1)'' ?end) =
      Returns (?r\<lparr>fromCache := True\<rparr>)"
    by (simp add: runJavaScript_def Let_def)
  with size show ?thesis by simp
qed

text \<open>
  C5 as amended: the front end's cache never exceeds 100 entries, and after any sequence of
  clean successes with pairwise different keys, stored into the empty cache, it holds
  exactly the last 100 of them in insertion order (so after 101 the first is gone and the
  other 100 are present); the runner's own cache keeps every key it ever held.
\<close>

theorem C5_front_end_cache_is_bounded_fifo:
  "(Map_size c \<le> 100 \<longrightarrow> Map_size (store k r c) \<le> 100) \<and>
   (served md5 st \<longrightarrow> Map_size (outputCache st) \<le> 100) \<and>
   (distinct (map fst kvs) \<and> (\<forall>x \<in> set kvs. clean (snd x)) \<longrightarrow>
      foldl (\<lambda>c (k, r). store k r c) [] kvs = drop (length kvs - 100) kvs) \<and>
   (Map_has k' (cache s) \<longrightarrow> Map_has k' (cache (snd (runJavaScript md5 e code s))))"
  using stores_fifo [of kvs]
  by (simp add: store_size served_size run_keeps)

theorem C5_front_end_cache_is_bounded_fifo_witness:
  "foldl (\<lambda>c (k, r). store k r c) []
     (map (\<lambda>n. (''console.log(1)'' @ replicate n CHR '';'',
        \<lparr>success = True, output_text = ''1'', error = Some '''', mode = Some ''local'',
         vmID = None, containerId = None, executionId = None, fromCache = False\<rparr>)) [0..<101]) =
   map (\<lambda>n. (''console.log(1)'' @ replicate n CHR '';'',
        \<lparr>success = True, output_text = ''1'', error = Some '''', mode = Some ''local'',
         vmID = None, containerId = None, executionId = None, fromCache = False\<rparr>)) [1..<101] \<and>
   Map_size (map (\<lambda>n. (''console.log(1)'' @ replicate n CHR '';'',
        \<lparr>success = True, output_text = ''1'', error = Some '''', mode = Some ''local'',
         vmID = None, containerId = None, executionId = None, fromCache = False\<rparr>)) [1..<101]) = 100 \<and>
   Map_size (store ''console.log(1)''
        \<lparr>success = True, output_text = ''1'', error = Some '''', mode = Some ''local'',
         vmID = None, containerId = None, executionId = None, fromCache = False\<rparr> []) = 1 \<and>
   served (\<lambda>src. src) \<lparr>outputCache = [], firecrackerAvailable = False, runner = ()\<rparr> \<and>
   Map_has ''console.log(1)''
     (cache (snd (runJavaScript (\<lambda>src. src) sample_env ''console.log(1)'' sample_state))) \<and>
   Map_has ''console.log(1)''
     (cache (snd (runJavaScript (\<lambda>src. src) (sample_env\<lparr>uuid := ''u2''\<rparr>) ''console.error(1)''
       (snd (runJavaScript (\<lambda>src. src) sample_env ''console.log(1)'' sample_state)))))"
proof -
  let ?q = "\<lparr>success = True, output_text = ''1'', error = Some '''', mode = Some ''local'',
         vmID = None, containerId = None, executionId = None, fromCache = False\<rparr>"
  let ?f = "\<lambda>n. (''console.log(1)'' @ replicate n CHR '';'', ?q)"
  let ?s1 = "snd (runJavaScript (\<lambda>src. src) sample_env ''console.log(1)'' sample_state)"
  have d: "distinct (map fst (map ?f [0..<101]))" by (simp add: distinct_map inj_on_def comp_def)
  have c: "\<forall>x \<in> set (map ?f [0..<101]). clean (snd x)" by (simp add: clean_def)
  have l: "drop (length (map ?f [0..<101]) - 100) (map ?f [0..<101]) = map ?f [1..<101]"
    by (simp add: drop_map)
  have sz: "Map_size ([] :: (string \<times> result) list) \<le> 100" by (simp add: Map_size_def)
  have one: "Map_size (store ''console.log(1)'' ?q []) = 1"
    by (simp add: store_def clean_def Map_size_def Map_set_def)
  have sv: "served (\<lambda>src. src) \<lparr>outputCache = [], firecrackerAvailable = False, runner = ()\<rparr>"
    by (rule served.s_started)
  have h: "Map_has ''console.log(1)'' (cache ?s1)"
    using sample_script_logs [of 0]
    by (simp add: runJavaScript_def runWithVMSandbox_def sample_env_def sample_state_def
        constructed_def Let_def Map_get_def Map_has_def Map_set_def)
  from C5_front_end_cache_is_bounded_fifo [of "[]" "''console.log(1)''" ?q
      "\<lambda>src. src" "\<lparr>outputCache = [], firecrackerAvailable = False, runner = ()\<rparr>"
      "map ?f [0..<101]" "''console.log(1)''" ?s1 "sample_env\<lparr>uuid := ''u2''\<rparr>"
      "''console.error(1)''"] d c l sz one sv h
  show ?thesis by (simp add: Map_size_def)
qed

end
